theory Spec2Isabelle
  imports Complex_Main
begin

section \<open>Values shared by the embedding\<close>

text \<open>
  Lengths (\<open>Unit\<close> values of the layout engine) are real numbers in the base graphic
  unit: the sources compute with Python floats, the embedding with exact reals.
  A \<open>Point\<close> is a pair of lengths; \<open>+\<close> on points is componentwise.
\<close>

type_synonym point = "real \<times> real"

definition point_add :: "point \<Rightarrow> point \<Rightarrow> point" where
  "point_add p q = (fst p + fst q, snd p + snd q)"

datatype error =
    NotImplementedError | IndexError | ZeroDivisionError | AttributeError
  | OverflowError | ValueError

text \<open>
  Python list indexing \<open>xs[i]\<close>: a negative index counts from the end, an index out of
  range raises \<open>IndexError\<close>.
\<close>

definition py_get :: "'a list \<Rightarrow> int \<Rightarrow> error + 'a" where
  "py_get xs i =
     (if 0 \<le> i \<and> i < int (length xs) then Inr (xs ! nat i)
      else if i < 0 \<and> - int (length xs) \<le> i then Inr (xs ! nat (int (length xs) + i))
      else Inl IndexError)"

section \<open>QClippingPath.calculate_bounding_rect (neoscore/interface/qt/q_clipping_path.py)\<close>

text \<open>A \<open>QRectF\<close>: left edge, top edge, width, height.\<close>

record QRectF =
  rect_x :: real
  rect_y :: real
  rect_width :: real
  rect_height :: real

text \<open>
  \<open>clip_width\<close> is \<open>Optional[float]\<close>: \<open>None\<close> asks for the region up to the end of
  the path.
\<close>

definition calculate_bounding_rect ::
  "QRectF \<Rightarrow> real \<Rightarrow> real option \<Rightarrow> real \<Rightarrow> QRectF" where
  "calculate_bounding_rect bounding_rect clip_start_x clip_width padding =
     (let resolved_clip_start_x = rect_x bounding_rect + clip_start_x;
          resolved_clip_width =
            (case clip_width of
               Some w \<Rightarrow> w
             | None \<Rightarrow> rect_width bounding_rect - resolved_clip_start_x)
      in \<lparr> rect_x = - padding,
           rect_y = rect_y bounding_rect - padding,
           rect_width = resolved_clip_width + (padding * 2),
           rect_height = rect_height bounding_rect + (padding * 2) \<rparr>)"

text \<open>The right edge of a rectangle, \<open>x() + width()\<close>.\<close>

definition rect_right :: "QRectF \<Rightarrow> real" where
  "rect_right r = rect_x r + rect_width r"

section \<open>RepeatingMusicTextLine (brown/core/repeating_music_text_line.py)\<close>

text \<open>
  A Python float: a finite number, an infinity or not-a-number. \<open>int(f)\<close> truncates a
  finite float toward zero, raises \<open>OverflowError\<close> on an infinity and \<open>ValueError\<close> on
  not-a-number.
\<close>

datatype py_float = Finite real | Infinity | NaN

fun py_int :: "py_float \<Rightarrow> error + int" where
  "py_int (Finite r) = Inr (if 0 \<le> r then \<lfloor>r\<rfloor> else \<lceil>r\<rceil>)"
| "py_int Infinity = Inl OverflowError"
| "py_int NaN = Inl ValueError"

text \<open>
  \<open>_repetitions_needed\<close>: \<open>int((self.length / base_width).value)\<close>. The inputs are the
  length of the spanner and the width of one repetition of the text (\<open>base_width\<close>,
  the width of the bounding rect of the repeating characters). The division is the one
  of the \<open>Unit\<close> class on Python floats; \<open>brown/utils/units.py\<close> is not among the
  sources, so the division is a parameter, \<open>unit_div\<close>: the float value of the
  quotient, or the exception the division raises.
\<close>

definition repetitions_needed ::
  "(real \<Rightarrow> real \<Rightarrow> error + py_float) \<Rightarrow> real \<Rightarrow> real \<Rightarrow> error + int" where
  "repetitions_needed unit_div len base_width =
     (case unit_div len base_width of
        Inl e \<Rightarrow> Inl e
      | Inr q \<Rightarrow> py_int q)"

text \<open>
  Python's sequence repetition \<open>xs * n\<close>: \<open>n\<close> copies of \<open>xs\<close>, none when \<open>n \<le> 0\<close>.
\<close>

definition py_repeat :: "'a list \<Rightarrow> int \<Rightarrow> 'a list" where
  "py_repeat xs n = concat (replicate (nat n) xs)"

text \<open>
  The end of \<open>__init__\<close>: the text of the line is the text of one repetition,
  repeated \<open>_repetitions_needed\<close> times; \<open>repetitions_drawn\<close> is the number of
  repetitions that text holds.
\<close>

definition repeated_text ::
  "(real \<Rightarrow> real \<Rightarrow> error + py_float) \<Rightarrow> string \<Rightarrow> real \<Rightarrow> real \<Rightarrow> error + string" where
  "repeated_text unit_div text len base_width =
     (case repetitions_needed unit_div len base_width of
        Inl e \<Rightarrow> Inl e
      | Inr repetitions \<Rightarrow> Inr (py_repeat text repetitions))"

definition repetitions_drawn ::
  "(real \<Rightarrow> real \<Rightarrow> error + py_float) \<Rightarrow> real \<Rightarrow> real \<Rightarrow> error + nat" where
  "repetitions_drawn unit_div len base_width =
     (case repetitions_needed unit_div len base_width of
        Inl e \<Rightarrow> Inl e
      | Inr repetitions \<Rightarrow> Inr (nat repetitions))"

section \<open>GraphicObject (brown/core/graphic_object.py)\<close>

text \<open>
  An automatic layout controller of a flowable frame (\<open>AutoNewLine\<close>, \<open>AutoNewPage\<close>).
  The two classes are not among the sources; the fields are the attributes that
  \<open>graphic_object.py\<close> and \<open>tests/core/test_flowable_frame.py\<close> read: the local x
  at which the break triggers, the length of the line it starts, and the margin above
  the next line.
\<close>

datatype break_kind = NewLine | NewPage

record layout_controller =
  controller_kind :: break_kind
  controller_x :: real
  controller_length :: real
  margin_above_next :: real

text \<open>
  \<open>FlowableFrame\<close> (brown/core/flowable_frame.py) is not among the sources. What
  \<open>GraphicObject\<close> uses of a frame are its controller list and three queries; they are
  the fields of this record, so every statement about \<open>render\<close> below holds for any
  frame whatever these queries compute.
\<close>

record flowable_frame =
  auto_layout_controllers :: "layout_controller list"
  x_pos_rel_to_line_end :: "real \<Rightarrow> real"
  last_break_index_at :: "real \<Rightarrow> int"
  local_space_to_doc_space :: "point \<Rightarrow> point"

text \<open>
  The chain of ancestors reached through \<open>parent\<close>: \<open>None\<close>, another object with its
  own position and parent, or a flowable frame.
\<close>

datatype ancestor =
    NoParent
  | Object point ancestor
  | FlowableFrame flowable_frame

text \<open>
  A graphic object: the attributes set by \<open>__init__\<close> (pen and brush play no part in
  what follows), and which of the four render methods the concrete class overrides.
  A method that is not overridden is the one of \<open>GraphicObject\<close>, which raises
  \<open>NotImplementedError\<close>.
\<close>

record graphic_object =
  pos :: point
  breakable_width :: real
  parent :: ancestor
  has_render_complete :: bool
  has_render_before_break :: bool
  has_render_after_break :: bool
  has_render_spanning_continuation :: bool

text \<open>\<open>GraphicObject.__init__\<close> of the abstract class: no render method is overridden.\<close>

definition GraphicObject_init :: "point \<Rightarrow> real \<Rightarrow> ancestor \<Rightarrow> graphic_object" where
  "GraphicObject_init p w par =
     \<lparr> pos = p, breakable_width = w, parent = par,
       has_render_complete = False, has_render_before_break = False,
       has_render_after_break = False, has_render_spanning_continuation = False \<rparr>"

text \<open>
  \<open>InvisibleObject\<close> (brown/core/invisible_object.py): breakable width \<open>Unit(0)\<close>, and
  only \<open>_render_complete\<close> is overridden (it does nothing).
\<close>

definition InvisibleObject_init :: "point \<Rightarrow> ancestor \<Rightarrow> graphic_object" where
  "InvisibleObject_init p par =
     (GraphicObject_init p 0 par) \<lparr> has_render_complete := True \<rparr>"

text \<open>
  The property \<open>frame\<close>: walk up the parents until one is a \<open>FlowableFrame\<close>; reaching
  \<open>None\<close> raises \<open>AttributeError\<close>, which the property turns into \<open>None\<close>.
\<close>

fun frame_of :: "ancestor \<Rightarrow> flowable_frame option" where
  "frame_of NoParent = None"
| "frame_of (Object p a) = frame_of a"
| "frame_of (FlowableFrame f) = Some f"

definition frame :: "graphic_object \<Rightarrow> flowable_frame option" where
  "frame obj = frame_of (parent obj)"

definition is_in_flowable :: "graphic_object \<Rightarrow> bool" where
  "is_in_flowable obj = (frame obj \<noteq> None)"

definition document_pos :: "graphic_object \<Rightarrow> error + point" where
  "document_pos obj =
     (case frame obj of
        Some f \<Rightarrow> Inr (local_space_to_doc_space f (pos obj))
      | None \<Rightarrow> Inl NotImplementedError)"

text \<open>
  The position of an object resolved through its ancestor chain: the sum of the
  positions of the object and of its ancestors up to the root. This is the sum
  that the loop of \<open>pos_relative_to_origin\<close> accumulates; a chain that meets a
  flowable frame is left to the frame, as there.
\<close>

fun chain_pos :: "point \<Rightarrow> point \<Rightarrow> ancestor \<Rightarrow> point" where
  "chain_pos self_pos acc NoParent = acc"
| "chain_pos self_pos acc (Object p a) = chain_pos self_pos (point_add acc p) a"
| "chain_pos self_pos acc (FlowableFrame f) = local_space_to_doc_space f self_pos"

definition resolved_pos :: "graphic_object \<Rightarrow> point" where
  "resolved_pos obj = chain_pos (pos obj) (point_add (0, 0) (pos obj)) (parent obj)"

text \<open>
  The four render phases, each with the document-space points it is called with.
\<close>

datatype render_call =
    RenderComplete point
  | RenderBeforeBreak point point
  | RenderAfterBreak point point
  | RenderSpanningContinuation point point

fun implements :: "graphic_object \<Rightarrow> render_call \<Rightarrow> bool" where
  "implements obj (RenderComplete p) = has_render_complete obj"
| "implements obj (RenderBeforeBreak p q) = has_render_before_break obj"
| "implements obj (RenderAfterBreak p q) = has_render_after_break obj"
| "implements obj (RenderSpanningContinuation p q) = has_render_spanning_continuation obj"

text \<open>
  The outcome of a render: the calls made, in order, when it returns (\<open>Inr\<close>); the
  exception and the calls that were made before it when it raises (\<open>Inl\<close>).
\<close>

type_synonym outcome = "(error \<times> render_call list) + render_call list"

text \<open>
  One call of a render method after the calls \<open>made\<close>: an overridden method is
  recorded, the base method raises.
\<close>

definition dispatch :: "graphic_object \<Rightarrow> render_call \<Rightarrow> render_call list \<Rightarrow> outcome" where
  "dispatch obj c made =
     (if implements obj c then Inr (made @ [c]) else Inl (NotImplementedError, made))"

text \<open>
  The end of \<open>_render_flowable\<close> (\<open># Render end\<close>): the rest of the object starts at
  the x of \<open>current_line\<close> and is \<open>remaining_x\<close> long.
\<close>

definition render_end ::
  "graphic_object \<Rightarrow> flowable_frame \<Rightarrow> real \<Rightarrow> layout_controller \<Rightarrow> render_call list \<Rightarrow> outcome"
where
  "render_end obj f remaining_x current_line made =
     (let render_start_pos = local_space_to_doc_space f (controller_x current_line, snd (pos obj));
          render_end_pos = point_add render_start_pos (remaining_x, 0)
      in dispatch obj (RenderAfterBreak render_start_pos render_end_pos) made)"

text \<open>
  The loop \<open>for current_line_i in range(first_line_i + 1, len(...))\<close> over the indices
  still to visit, with the loop variables \<open>remaining_x\<close> and \<open>current_line\<close>; the
  \<open># Render end\<close> part follows when the loop breaks or runs out.
\<close>

fun render_remaining ::
  "graphic_object \<Rightarrow> flowable_frame \<Rightarrow> real \<Rightarrow> layout_controller \<Rightarrow> int list
     \<Rightarrow> render_call list \<Rightarrow> outcome"
where
  "render_remaining obj f remaining_x current_line [] made =
     render_end obj f remaining_x current_line made"
| "render_remaining obj f remaining_x current_line (current_line_i # rest) made =
     (case py_get (auto_layout_controllers f) current_line_i of
        Inl e \<Rightarrow> Inl (e, made)
      | Inr line \<Rightarrow>
          (if remaining_x > controller_length line then
             (let render_start_pos =
                    local_space_to_doc_space f (controller_x line, snd (pos obj));
                  render_end_pos = point_add render_start_pos (controller_length line, 0)
              in case dispatch obj
                        (RenderSpanningContinuation render_start_pos render_end_pos) made of
                   Inl e \<Rightarrow> Inl e
                 | Inr made' \<Rightarrow>
                     render_remaining obj f (remaining_x - controller_length line) line
                       rest made')
           else render_end obj f remaining_x line made))"

definition render_flowable :: "flowable_frame \<Rightarrow> graphic_object \<Rightarrow> outcome" where
  "render_flowable f obj =
     (let remaining_x = breakable_width obj + x_pos_rel_to_line_end f (fst (pos obj))
      in if remaining_x < 0 then
           dispatch obj (RenderComplete (local_space_to_doc_space f (pos obj))) []
         else
           (let first_line_i = last_break_index_at f (fst (pos obj))
            in case py_get (auto_layout_controllers f) first_line_i of
                 Inl e \<Rightarrow> Inl (e, [])
               | Inr current_line \<Rightarrow>
                   (let render_start_pos = local_space_to_doc_space f (pos obj);
                        render_end_pos =
                          point_add render_start_pos
                            (-1 * x_pos_rel_to_line_end f (fst (pos obj)), 0)
                    in case dispatch obj
                              (RenderBeforeBreak render_start_pos render_end_pos) [] of
                         Inl e \<Rightarrow> Inl e
                       | Inr made \<Rightarrow>
                           render_remaining obj f remaining_x current_line
                             [first_line_i + 1 .. int (length (auto_layout_controllers f)) - 1]
                             made)))"

definition render :: "graphic_object \<Rightarrow> outcome" where
  "render obj =
     (case frame obj of
        Some f \<Rightarrow> render_flowable f obj
      | None \<Rightarrow> dispatch obj (RenderComplete (pos obj)) [])"

text \<open>The same object with every render method overridden.\<close>

definition fully_implemented :: "graphic_object \<Rightarrow> graphic_object" where
  "fully_implemented obj =
     obj \<lparr> has_render_complete := True, has_render_before_break := True,
           has_render_after_break := True, has_render_spanning_continuation := True \<rparr>"

text \<open>The calls a render made, whether it returned or raised.\<close>

fun calls_made :: "outcome \<Rightarrow> render_call list" where
  "calls_made (Inl (e, made)) = made"
| "calls_made (Inr made) = made"

fun is_render_complete :: "render_call \<Rightarrow> bool" where
  "is_render_complete (RenderComplete p) = True"
| "is_render_complete (RenderBeforeBreak p q) = False"
| "is_render_complete (RenderAfterBreak p q) = False"
| "is_render_complete (RenderSpanningContinuation p q) = False"

text \<open>
  A frame to try the statements on: 200 long, with a live width of 100 and one line
  break at x = 100, the second line 70 below the first, the live area 20 from the
  corner of the page. The position of x relative to the end of its line is negative
  before the end of the line and zero at the end of the frame, x = 200.
\<close>

definition two_line_frame :: flowable_frame where
  "two_line_frame =
     \<lparr> auto_layout_controllers =
         [\<lparr> controller_kind = NewLine, controller_x = 100, controller_length = 100,
            margin_above_next = 20 \<rparr>],
       x_pos_rel_to_line_end = (\<lambda>x. if x < 100 then x - 100 else x - 200),
       last_break_index_at = (\<lambda>x. if x < 100 then -1 else 0),
       local_space_to_doc_space =
         (\<lambda>p. if fst p < 100 then (20 + fst p, 20 + snd p)
              else (20 + (fst p - 100), 20 + 70 + snd p)) \<rparr>"

section \<open>Spanner (brown/core/spanner.py)\<close>

text \<open>
  Here the unit class of a length matters. \<open>brown/utils/units.py\<close> is not among the
  sources: a unit class is known by its conversion rate to the base unit
  (\<open>_conversion_rate\<close>; tests/utils/test_mm.py has one \<open>Mm\<close> at about 11.8110236 base
  units, that is 300 dots per inch), and a \<open>Unit\<close> value by its class and its number.
\<close>

datatype unit_type = GraphicUnit | Mm

fun conversion_rate :: "unit_type \<Rightarrow> real" where
  "conversion_rate GraphicUnit = 1"
| "conversion_rate Mm = 300 / 25.4"

record Unit =
  unit_class :: unit_type
  unit_value :: real

text \<open>\<open>T(u)\<close>: the length \<open>u\<close> as a value of the unit class \<open>T\<close>.\<close>

definition to_unit :: "unit_type \<Rightarrow> Unit \<Rightarrow> Unit" where
  "to_unit t u =
     \<lparr> unit_class = t,
       unit_value = unit_value u * conversion_rate (unit_class u) / conversion_rate t \<rparr>"

type_synonym unit_point = "Unit \<times> Unit"

text \<open>\<open>Point.to_unit\<close>, which converts both coordinates of the point in place.\<close>

definition point_to_unit :: "unit_type \<Rightarrow> unit_point \<Rightarrow> unit_point" where
  "point_to_unit t p = (to_unit t (fst p), to_unit t (snd p))"

text \<open>
  The end parent of a spanner: the spanner itself (the default, when \<open>end_parent\<close> is
  \<open>None\<close>), or another graphic object.
\<close>

datatype end_parent_ref = Self | Other graphic_object

record spanner =
  spanner_pos :: unit_point
  end_pos :: unit_point
  end_parent :: end_parent_ref

text \<open>\<open>Spanner.__init__\<close> on an object at \<open>p\<close>.\<close>

definition Spanner_init ::
  "unit_point \<Rightarrow> unit_point \<Rightarrow> graphic_object option \<Rightarrow> spanner" where
  "Spanner_init p e par =
     \<lparr> spanner_pos = p, end_pos = e,
       end_parent = (case par of None \<Rightarrow> Self | Some other \<Rightarrow> Other other) \<rparr>"

text \<open>
  The first statement of \<open>length\<close>. When the end parent is the spanner, the stop is a
  copy of \<open>end_pos\<close>. Otherwise the method evaluates
  \<open>GraphicObject.map_between_items(self, self.end_parent)\<close>: the class
  \<open>GraphicObject\<close> (brown/core/graphic_object.py) has no attribute of that name (it
  has \<open>pos_relative_to_item\<close>), so the lookup raises \<open>AttributeError\<close>.
\<close>

definition relative_stop :: "spanner \<Rightarrow> error + unit_point" where
  "relative_stop s =
     (case end_parent s of
        Self \<Rightarrow> Inr (end_pos s)
      | Other other \<Rightarrow> Inl AttributeError)"

text \<open>
  \<open>length\<close>: the stop is converted to the unit class of \<open>pos.x\<close>, and the result is
  the square root of the sum of the squares of its two values, in that unit class.
\<close>

definition spanner_length :: "spanner \<Rightarrow> error + Unit" where
  "spanner_length s =
     (case relative_stop s of
        Inl e \<Rightarrow> Inl e
      | Inr stop \<Rightarrow>
          (let converted = point_to_unit (unit_class (fst (spanner_pos s))) stop;
               distance = sqrt ((unit_value (fst converted))\<^sup>2
                                + (unit_value (snd converted))\<^sup>2)
           in Inr \<lparr> unit_class = unit_class (fst (spanner_pos s)),
                    unit_value = distance \<rparr>))"

section \<open>Document and pages\<close>

text \<open>
  The paper (\<open>brown/core/paper.py\<close> is not among the sources): "a plain value
  struct, no behavior" (spec, section 6) with the overall size, the margins at the top
  left, and the size of the live area inside the margins.
\<close>

record paper =
  paper_width :: real
  paper_height :: real
  margin_left :: real
  margin_top :: real
  live_width :: real
  live_height :: real

text \<open>
  A paper with the numbers of the paper of the tests
  (\<open>Paper(210, 297, 20, 20, 20, 20, 10)\<close> in \<open>setUp\<close>): the live area is 160 wide and
  257 high.
\<close>

definition test_paper :: paper where
  "test_paper =
     \<lparr> paper_width = 210, paper_height = 297, margin_left = 20, margin_top = 20,
       live_width = 160, live_height = 257 \<rparr>"

text \<open>
  A page as \<open>Page.__init__\<close> (neoscore/core/page.py) sets it up: the position of its top
  left corner, its index, and its paper (the document is its parent).
\<close>

record page =
  page_pos :: point
  page_index :: nat
  page_paper :: paper

definition Page_init :: "point \<Rightarrow> nat \<Rightarrow> paper \<Rightarrow> page" where
  "Page_init p i pap = \<lparr> page_pos = p, page_index = i, page_paper = pap \<rparr>"

text \<open>\<open>Mm(v)\<close> in base units.\<close>

definition mm :: "real \<Rightarrow> real" where
  "mm v = v * conversion_rate Mm"

text \<open>
  The paper of \<open>setUp\<close> in tests/core/test_flowable_frame.py,
  \<open>Paper(210, 297, 20, 20, 20, 20, 10)\<close>, in base units: the tests read its live
  width as \<open>paper.live_width * units.mm\<close>. The live area is 160 mm wide and 257 mm
  high.
\<close>

definition setup_paper :: paper where
  "setup_paper =
     \<lparr> paper_width = mm 210, paper_height = mm 297, margin_left = mm 20,
       margin_top = mm 20, live_width = mm 160, live_height = mm 257 \<rparr>"

text \<open>\<open>PAGE_DISPLAY_GAP = Mm(150)\<close> (brown/config.py).\<close>

definition PAGE_DISPLAY_GAP :: real where
  "PAGE_DISPLAY_GAP = mm 150"

text \<open>
  Modelled from the spec: the document and its page supplier are not among the sources
  (section 4.4). The document owns its paper and the pages created so far, in the
  order of their creation.
\<close>

record document =
  doc_paper :: paper
  pages :: "page list"

text \<open>
  Modelled from the spec: \<open>page_origin_in_doc_space\<close> (missing with the document),
  "a deterministic function of page index, paper dimensions, and the fixed inter-page
  visual gap"; the pages lie in a single row, each one paper width and one gap after
  the one before (section 3, section 8 item 6).
\<close>

definition page_origin_in_doc_space :: "paper \<Rightarrow> nat \<Rightarrow> point" where
  "page_origin_in_doc_space pap i = (real i * (paper_width pap + PAGE_DISPLAY_GAP), 0)"

text \<open>
  Modelled from the spec: \<open>page_at\<close> (missing with the document), which "returns the
  existing page or lazily creates pages 0..index", never out of order: while the
  requested index is absent, the page with the lowest absent index is created and
  appended.
\<close>

function create_pages_up_to :: "document \<Rightarrow> nat \<Rightarrow> document" where
  "create_pages_up_to doc i =
     (if length (pages doc) \<le> i then
        create_pages_up_to
          (doc \<lparr> pages := pages doc @
             [Page_init (page_origin_in_doc_space (doc_paper doc) (length (pages doc)))
                (length (pages doc)) (doc_paper doc)] \<rparr>) i
      else doc)"
  by pat_completeness auto
termination
  by (relation "measure (\<lambda>(doc, i). Suc i - length (pages doc))") auto

declare create_pages_up_to.simps [simp del]

definition page_at :: "document \<Rightarrow> nat \<Rightarrow> page \<times> document" where
  "page_at doc i = (let doc' = create_pages_up_to doc i in (pages doc' ! i, doc'))"

text \<open>Modelled from the spec: a fresh document, with no page yet (section 8 item 6).\<close>

definition new_document :: "paper \<Rightarrow> document" where
  "new_document pap = \<lparr> doc_paper = pap, pages = [] \<rparr>"

section \<open>FlowableFrame: break points\<close>

text \<open>
  Modelled from the spec: \<open>FlowableFrame\<close> (brown/core/flowable_frame.py) is not
  among the sources. Its attributes are those of section 3 and of the constructor
  calls in tests/core/test_flowable_frame.py: the position of its origin (the x is the
  offset at which the frame starts within its first line), its total logical length
  (\<open>width\<close>), the line height (\<open>height\<close>) and the padding between lines
  (\<open>y_padding\<close>); the paper is the one of the document.
\<close>

record frame_geometry =
  frame_pos :: point
  frame_width :: real
  frame_height :: real
  y_padding :: real
  frame_paper :: paper

text \<open>
  Modelled from the spec: the number of lines a page takes before a page break is
  required, "floor(live_height / (line_height+padding))" (section 4.1). The division
  raises on a zero divisor.
\<close>

definition lines_per_page :: "frame_geometry \<Rightarrow> error + nat" where
  "lines_per_page g =
     (if frame_height g + y_padding g = 0 then Inl ZeroDivisionError
      else Inr (nat \<lfloor>live_height (frame_paper g) / (frame_height g + y_padding g)\<rfloor>))"

text \<open>
  Modelled from the spec: the two controllers (section 3, "BreakController"). Each
  stores the x at which it triggers and the length of the line it starts, the full
  live width; the margin above the next line is the padding of the frame for a line
  break and zero for a page break.
\<close>

definition new_line_at :: "frame_geometry \<Rightarrow> real \<Rightarrow> layout_controller" where
  "new_line_at g x =
     \<lparr> controller_kind = NewLine, controller_x = x,
       controller_length = live_width (frame_paper g), margin_above_next = y_padding g \<rparr>"

definition new_page_at :: "frame_geometry \<Rightarrow> real \<Rightarrow> layout_controller" where
  "new_page_at g x =
     \<lparr> controller_kind = NewPage, controller_x = x,
       controller_length = live_width (frame_paper g), margin_above_next = 0 \<rparr>"

text \<open>A controller put in front of the result of the rest of the loop.\<close>

definition cons_result ::
  "layout_controller \<Rightarrow> error + layout_controller list \<Rightarrow> error + layout_controller list"
where
  "cons_result c r = (case r of Inl e \<Rightarrow> Inl e | Inr cs \<Rightarrow> Inr (c # cs))"

text \<open>
  Modelled from the spec: the loop of section 4.1. \<open>x_progress\<close> is the cumulative x
  at the end of the current line, \<open>lines_on_page\<close> the number of lines on the current
  page so far. The loop stops when the cumulative x reaches the length of the frame;
  otherwise it emits a break at that x (a new page once the budget of lines of the
  page is exhausted, with the count reset; a new line otherwise), and the line that
  follows is one live width long. For a live width that is not positive the loop need
  not end: the result \<open>None\<close> stands for not returning.
\<close>

partial_function (option) generate_from ::
  "frame_geometry \<Rightarrow> real \<Rightarrow> nat \<Rightarrow> (error + layout_controller list) option"
where
  "generate_from g x_progress lines_on_page =
     (if frame_width g \<le> x_progress then Some (Inr [])
      else
        (case lines_per_page g of
           Inl e \<Rightarrow> Some (Inl e)
         | Inr budget \<Rightarrow>
             (if budget \<le> lines_on_page then
                Option.bind
                  (generate_from g (x_progress + live_width (frame_paper g)) 1)
                  (\<lambda>r. Some (cons_result (new_page_at g x_progress) r))
              else
                Option.bind
                  (generate_from g (x_progress + live_width (frame_paper g))
                     (Suc lines_on_page))
                  (\<lambda>r. Some (cons_result (new_line_at g x_progress) r)))))"

text \<open>
  Modelled from the spec: \<open>_generate_auto_layout_controllers\<close>. The first line is
  what is left of the live width after the starting offset of the frame.
\<close>

definition generate_auto_layout_controllers ::
  "frame_geometry \<Rightarrow> (error + layout_controller list) option" where
  "generate_auto_layout_controllers g =
     generate_from g (live_width (frame_paper g) - fst (frame_pos g)) 1"

text \<open>
  The segments into which the triggers \<open>ts\<close> slice the frame from \<open>start\<close> to its
  length \<open>l\<close>: from each trigger to the next, and from the last to the end.
\<close>

fun segments :: "real \<Rightarrow> real \<Rightarrow> real list \<Rightarrow> real list" where
  "segments start l [] = [l - start]"
| "segments start l (t # ts) = (t - start) # segments t l ts"

section \<open>Theorems\<close>

subsection \<open>The clip window of the rendering backend\<close>

text \<open>
  With \<open>clip_width = None\<close> the width of the returned rect is the width of the path's
  bounding rect less its left edge and the clip start, plus the padding on both sides.
\<close>

lemma calculate_bounding_rect_None:
  "calculate_bounding_rect b s None p =
     \<lparr> rect_x = - p, rect_y = rect_y b - p,
       rect_width = rect_width b - (rect_x b + s) + p * 2,
       rect_height = rect_height b + p * 2 \<rparr>"
  by (simp add: calculate_bounding_rect_def)

text \<open>
  C9. With \<open>clip_width = None\<close> the clip window is to reach from the clip start to the
  end of the content, the right edge of the path's bounding rect. For a path whose
  bounding rect does not start at x = 0 it does not: for the bounding rect
  \<open>QRectF(10, 0, 100, 20)\<close>, whose right edge is at 110, a clip start of 0 and no
  padding, the window is 90 wide, neither the 110 from the local clip start 0 to the
  right edge nor the 100 from the resolved clip start 10 to it.
\<close>

theorem calculate_bounding_rect_unbounded_width_offset_path:
  "calculate_bounding_rect
       \<lparr> rect_x = 10, rect_y = 0, rect_width = 100, rect_height = 20 \<rparr> 0 None 0
     = \<lparr> rect_x = 0, rect_y = 0, rect_width = 90, rect_height = 20 \<rparr>
   \<and> rect_right \<lparr> rect_x = 10, rect_y = 0, rect_width = 100, rect_height = 20 \<rparr> - 0 = 110
   \<and> rect_right \<lparr> rect_x = 10, rect_y = 0, rect_width = 100, rect_height = 20 \<rparr> - (10 + 0)
       = 100"
  by (simp add: calculate_bounding_rect_def rect_right_def)

subsection \<open>Repetitions of a repeating text line\<close>

text \<open>
  C10. The number of repetitions drawn is to be the floor of length / width, so that
  the drawn text is never wider than the spanner. For a spanner that runs leftward, of
  length -25, and a repetition 10 wide (the float quotient is exactly -2.5), \<open>int\<close>
  truncates toward zero and gives -2 where the floor is -3; the text repeated -2 times
  is empty, so no repetition is drawn, and the drawn width 0 is more than the length.
\<close>

theorem repetitions_needed_leftward:
  assumes "unit_div (-25) 10 = Inr (Finite (-2.5))"
  shows "repetitions_needed unit_div (-25) 10 = Inr (-2)
   \<and> repetitions_drawn unit_div (-25) 10 = Inr 0
   \<and> repeated_text unit_div text (-25) 10 = Inr []
   \<and> \<lfloor>(-25::real) / 10\<rfloor> = -3
   \<and> \<not> (real 0 * 10 \<le> (-25::real))"
  using assms
  by (simp add: repetitions_needed_def repetitions_drawn_def repeated_text_def py_repeat_def)

theorem repetitions_needed_leftward_witness:
  "repetitions_drawn (\<lambda>a b. Inr (Finite (a / b))) (-25) 10 = Inr 0
   \<and> repeated_text (\<lambda>a b. Inr (Finite (a / b))) ''ab'' (-25) 10 = Inr []"
  using repetitions_needed_leftward [of "\<lambda>a b. Inr (Finite (a / b))" "''ab''"] by simp

subsection \<open>Rendering outside a flowable frame\<close>

text \<open>
  Outside a flowable frame \<open>render\<close> makes one call, of \<open>_render_complete\<close>, with the
  object's own \<open>pos\<close>.
\<close>

lemma render_not_in_flowable:
  "\<not> is_in_flowable obj \<Longrightarrow> render obj = dispatch obj (RenderComplete (pos obj)) []"
  by (simp add: render_def is_in_flowable_def)

text \<open>
  C2. Outside a flowable frame an object is to be rendered once, at its position in
  document space. \<open>render\<close> passes \<open>self.pos\<close>, the position relative to the parent:
  an invisible object at (5, 6) whose parent is at (10, 11) is rendered at (5, 6), while
  its position resolved through the ancestor chain is (15, 17); \<open>document_pos\<close> raises
  \<open>NotImplementedError\<close> for it.
\<close>

theorem render_not_in_flowable_passes_local_pos:
  "render (InvisibleObject_init (5, 6) (Object (10, 11) NoParent)) = Inr [RenderComplete (5, 6)]
   \<and> resolved_pos (InvisibleObject_init (5, 6) (Object (10, 11) NoParent)) = (15, 17)
   \<and> document_pos (InvisibleObject_init (5, 6) (Object (10, 11) NoParent))
       = Inl NotImplementedError"
  by (simp add: render_def frame_def InvisibleObject_init_def GraphicObject_init_def
      dispatch_def resolved_pos_def point_add_def document_pos_def)

subsection \<open>Rendering inside a flowable frame\<close>

lemma fully_implemented_simps [simp]:
  "pos (fully_implemented obj) = pos obj"
  "breakable_width (fully_implemented obj) = breakable_width obj"
  "parent (fully_implemented obj) = parent obj"
  "has_render_complete (fully_implemented obj)"
  "has_render_before_break (fully_implemented obj)"
  "has_render_after_break (fully_implemented obj)"
  "has_render_spanning_continuation (fully_implemented obj)"
  by (simp_all add: fully_implemented_def)

lemma implements_fully_implemented [simp]: "implements (fully_implemented obj) c"
  by (cases c) simp_all


text \<open>
  Whatever the loop of \<open>_render_flowable\<close> does, it adds to the calls made so far,
  and no call of \<open>_render_complete\<close> is among those it adds.
\<close>

lemma render_remaining_calls:
  "\<exists>rest. calls_made (render_remaining obj f r cl idxs made) = made @ rest
     \<and> (\<forall>c \<in> set rest. \<not> is_render_complete c)"
proof (induction idxs arbitrary: r cl made)
  case Nil
  show ?case
    by (simp add: render_end_def Let_def dispatch_def)
next
  case (Cons i rest)
  show ?case
  proof (cases "py_get (auto_layout_controllers f) i")
    case (Inl e)
    then show ?thesis by simp
  next
    case (Inr line)
    show ?thesis
    proof (cases "r > controller_length line")
      case False
      with Inr show ?thesis by (simp add: render_end_def Let_def dispatch_def)
    next
      case True
      let ?c = "RenderSpanningContinuation
                 (local_space_to_doc_space f (controller_x line, snd (pos obj)))
                 (point_add (local_space_to_doc_space f (controller_x line, snd (pos obj)))
                    (controller_length line, 0))"
      show ?thesis
      proof (cases "implements obj ?c")
        case no: False
        with Inr True show ?thesis by (simp add: Let_def dispatch_def)
      next
        case yes: True
        from Cons.IH[of "r - controller_length line" line "made @ [?c]"]
        obtain more where
          "calls_made (render_remaining obj f (r - controller_length line) line rest
             (made @ [?c])) = (made @ [?c]) @ more"
          "\<forall>c \<in> set more. \<not> is_render_complete c"
          by blast
        with Inr True yes show ?thesis
          by (intro exI[of _ "?c # more"]) (simp add: Let_def dispatch_def)
      qed
    qed
  qed
qed

text \<open>
  C3, as stated, fails at an x that the frame reports at the end of its line: an
  invisible object (breakable width 0) at x = 200 in the frame above, where the
  position relative to the line's end is 0, is sent down the split path. Its class
  has no \<open>_render_before_break\<close>, so the render raises \<open>NotImplementedError\<close>; with
  all four methods present the calls are \<open>_render_before_break\<close> and
  \<open>_render_after_break\<close>, and \<open>_render_complete\<close> is not called.
\<close>

theorem render_no_split_shortcut_at_line_end:
  "breakable_width (InvisibleObject_init (200, 5) (FlowableFrame two_line_frame)) = 0
   \<and> frame (InvisibleObject_init (200, 5) (FlowableFrame two_line_frame)) = Some two_line_frame
   \<and> render (InvisibleObject_init (200, 5) (FlowableFrame two_line_frame))
       = Inl (NotImplementedError, [])
   \<and> render (fully_implemented (InvisibleObject_init (200, 5) (FlowableFrame two_line_frame)))
       = Inr [RenderBeforeBreak (120, 95) (120, 95), RenderAfterBreak (20, 95) (20, 95)]"
  by (simp add: render_def frame_def InvisibleObject_init_def GraphicObject_init_def
      two_line_frame_def dispatch_def fully_implemented_def render_flowable_def py_get_def
      point_add_def render_end_def Let_def)

text \<open>
  C3, amended. For an object of breakable width 0 in a flowable frame, what the render
  does is decided by the position of its x relative to the end of its line, as the
  frame reports it. Where that is negative (x before the end of the line) the render
  is one call of \<open>_render_complete\<close>, at the position the frame maps the object to,
  which is its \<open>document_pos\<close>, and none of the three break methods is called (a class
  without \<open>_render_complete\<close> raises from that one call). Where it is zero or more,
  \<open>_render_complete\<close> is never called: with all four methods present the first call
  is \<open>_render_before_break\<close> from the mapped position, unless the frame has no
  controller at the index of the line and \<open>IndexError\<close> is raised before any call.
\<close>

theorem render_no_split_shortcut:
  assumes fr: "frame obj = Some f" and bw: "breakable_width obj = 0"
  shows "(x_pos_rel_to_line_end f (fst (pos obj)) < 0 \<longrightarrow>
            render obj =
              (if has_render_complete obj
               then Inr [RenderComplete (local_space_to_doc_space f (pos obj))]
               else Inl (NotImplementedError, []))
            \<and> document_pos obj = Inr (local_space_to_doc_space f (pos obj)))
   \<and> (0 \<le> x_pos_rel_to_line_end f (fst (pos obj)) \<longrightarrow>
         (\<forall>c \<in> set (calls_made (render obj)). \<not> is_render_complete c)
         \<and> (render (fully_implemented obj) = Inl (IndexError, [])
            \<or> (\<exists>rest. calls_made (render (fully_implemented obj)) =
                  RenderBeforeBreak (local_space_to_doc_space f (pos obj))
                    (point_add (local_space_to_doc_space f (pos obj))
                       (-1 * x_pos_rel_to_line_end f (fst (pos obj)), 0)) # rest)))"
proof (intro conjI impI)
  assume "x_pos_rel_to_line_end f (fst (pos obj)) < 0"
  with fr bw show "render obj =
              (if has_render_complete obj
               then Inr [RenderComplete (local_space_to_doc_space f (pos obj))]
               else Inl (NotImplementedError, []))"
    by (simp add: render_def render_flowable_def dispatch_def)
next
  from fr show "document_pos obj = Inr (local_space_to_doc_space f (pos obj))"
    by (simp add: document_pos_def)
next
  assume ge: "0 \<le> x_pos_rel_to_line_end f (fst (pos obj))"
  let ?i = "last_break_index_at f (fst (pos obj))"
  let ?b = "RenderBeforeBreak (local_space_to_doc_space f (pos obj))
              (point_add (local_space_to_doc_space f (pos obj))
                 (-1 * x_pos_rel_to_line_end f (fst (pos obj)), 0))"
  let ?idxs = "[?i + 1 .. int (length (auto_layout_controllers f)) - 1]"
  show "\<forall>c \<in> set (calls_made (render obj)). \<not> is_render_complete c"
  proof (cases "py_get (auto_layout_controllers f) ?i")
    case (Inl e)
    with fr bw ge show ?thesis
      by (simp add: render_def render_flowable_def Let_def)
  next
    case (Inr cl)
    show ?thesis
    proof (cases "has_render_before_break obj")
      case False
      with fr bw ge Inr show ?thesis
        by (simp add: render_def render_flowable_def Let_def dispatch_def)
    next
      case True
      from render_remaining_calls[of obj f "x_pos_rel_to_line_end f (fst (pos obj))" cl ?idxs "[?b]"]
      obtain rest where
        "calls_made (render_remaining obj f (x_pos_rel_to_line_end f (fst (pos obj))) cl ?idxs [?b])
           = [?b] @ rest" "\<forall>c \<in> set rest. \<not> is_render_complete c"
        by blast
      with fr bw ge Inr True show ?thesis
        by (simp add: render_def render_flowable_def Let_def dispatch_def)
    qed
  qed
next
  assume ge: "0 \<le> x_pos_rel_to_line_end f (fst (pos obj))"
  let ?i = "last_break_index_at f (fst (pos obj))"
  let ?b = "RenderBeforeBreak (local_space_to_doc_space f (pos obj))
              (point_add (local_space_to_doc_space f (pos obj))
                 (-1 * x_pos_rel_to_line_end f (fst (pos obj)), 0))"
  let ?idxs = "[?i + 1 .. int (length (auto_layout_controllers f)) - 1]"
  have ffr: "frame (fully_implemented obj) = Some f" using fr by (simp add: frame_def)
  show "render (fully_implemented obj) = Inl (IndexError, [])
      \<or> (\<exists>rest. calls_made (render (fully_implemented obj)) = ?b # rest)"
  proof (cases "py_get (auto_layout_controllers f) ?i")
    case (Inl e)
    then have "e = IndexError" by (auto simp: py_get_def split: if_splits)
    with Inl ffr bw ge show ?thesis
      by (simp add: render_def render_flowable_def Let_def)
  next
    case (Inr cl)
    from render_remaining_calls[of "fully_implemented obj" f
        "x_pos_rel_to_line_end f (fst (pos obj))" cl ?idxs "[?b]"]
    obtain rest where
      "calls_made (render_remaining (fully_implemented obj) f
          (x_pos_rel_to_line_end f (fst (pos obj))) cl ?idxs [?b]) = [?b] @ rest"
      by blast
    with ffr bw ge Inr show ?thesis
      by (simp add: render_def render_flowable_def Let_def dispatch_def)
  qed
qed


theorem render_no_split_shortcut_witness:
  "render (InvisibleObject_init (30, 5) (FlowableFrame two_line_frame))
     = Inr [RenderComplete (50, 25)]
   \<and> calls_made (render (InvisibleObject_init (200, 5) (FlowableFrame two_line_frame))) = []"
proof -
  let ?a = "InvisibleObject_init (30, 5) (FlowableFrame two_line_frame)"
  let ?b = "InvisibleObject_init (200, 5) (FlowableFrame two_line_frame)"
  have 1: "render ?a = Inr [RenderComplete (50, 25)]"
    using render_no_split_shortcut [of ?a two_line_frame]
    by (simp add: frame_def InvisibleObject_init_def GraphicObject_init_def two_line_frame_def)
  have "\<forall>c \<in> set (calls_made (render ?b)). \<not> is_render_complete c"
    using render_no_split_shortcut [of ?b two_line_frame]
    by (simp add: frame_def InvisibleObject_init_def GraphicObject_init_def two_line_frame_def)
  moreover have "render ?b = Inl (NotImplementedError, [])"
    by (simp add: render_def frame_def InvisibleObject_init_def GraphicObject_init_def
      two_line_frame_def dispatch_def render_flowable_def py_get_def Let_def)
  ultimately show ?thesis using 1 by simp
qed

subsection \<open>An object across one break\<close>

text \<open>
  C4. An object of breakable width 10 that starts one unit before the end of its line
  (its x relative to the line's end is -1), in a frame whose next line is more than 10
  long, is rendered by exactly two calls: \<open>_render_before_break\<close> from the mapped
  position of the object to one unit further right, which is the end of the line, and
  \<open>_render_after_break\<close> from the mapped origin of the next line (the x of the next
  break, at the y of the object) over the remaining 9 units. The line of the object
  is the one after break \<open>i\<close>, or the first line when \<open>i = -1\<close>.
\<close>

theorem render_across_one_break:
  assumes fr: "frame obj = Some f"
    and bw: "breakable_width obj = 10"
    and rel: "x_pos_rel_to_line_end f (fst (pos obj)) = -1"
    and idx: "last_break_index_at f (fst (pos obj)) = i"
    and lo: "-1 \<le> i" and hi: "i + 1 < int (length (auto_layout_controllers f))"
    and w: "10 < controller_length (auto_layout_controllers f ! nat (i + 1))"
    and impl: "has_render_before_break obj" "has_render_after_break obj"
  shows "render obj =
     Inr [RenderBeforeBreak (local_space_to_doc_space f (pos obj))
            (point_add (local_space_to_doc_space f (pos obj)) (1, 0)),
          RenderAfterBreak
            (local_space_to_doc_space f
               (controller_x (auto_layout_controllers f ! nat (i + 1)), snd (pos obj)))
            (point_add
               (local_space_to_doc_space f
                  (controller_x (auto_layout_controllers f ! nat (i + 1)), snd (pos obj)))
               (9, 0))]"
proof -
  let ?cs = "auto_layout_controllers f"
  have "\<exists>cl. py_get ?cs i = Inr cl"
  proof (cases "0 \<le> i")
    case True
    with hi show ?thesis by (simp add: py_get_def)
  next
    case False
    with lo hi show ?thesis by (simp add: py_get_def)
  qed
  then obtain cl where cl: "py_get ?cs i = Inr cl" ..
  from lo hi have nxt: "py_get ?cs (i + 1) = Inr (?cs ! nat (i + 1))"
    by (simp add: py_get_def)
  from hi have up:
    "[i + 1 .. int (length ?cs) - 1] = (i + 1) # [i + 1 + 1 .. int (length ?cs) - 1]"
    by (simp add: upto_rec1)
  show ?thesis
    using fr bw rel idx cl nxt w impl
    by (simp add: render_def render_flowable_def Let_def dispatch_def up render_end_def)
qed

theorem render_across_one_break_witness:
  "render ((GraphicObject_init (99, 5) 10 (FlowableFrame two_line_frame))
            \<lparr> has_render_before_break := True, has_render_after_break := True \<rparr>)
     = Inr [RenderBeforeBreak (119, 25) (120, 25), RenderAfterBreak (20, 95) (29, 95)]"
  using render_across_one_break
    [of "(GraphicObject_init (99, 5) 10 (FlowableFrame two_line_frame))
            \<lparr> has_render_before_break := True, has_render_after_break := True \<rparr>"
      two_line_frame "-1"]
  by (simp add: frame_def GraphicObject_init_def two_line_frame_def point_add_def)

subsection \<open>Render methods that a class does not override\<close>

text \<open>
  The loop of \<open>_render_flowable\<close> on an object with missing methods, against the same
  loop with every method present: it makes the same calls up to the first one whose
  method is missing, and raises there.
\<close>

lemma render_remaining_missing:
  "render_remaining (fully_implemented obj) f r cl idxs made0 = Inr res \<Longrightarrow>
   \<exists>calls. res = made0 @ calls \<and>
     (\<forall>made. render_remaining obj f r cl idxs made =
        (if list_all (implements obj) calls then Inr (made @ calls)
         else Inl (NotImplementedError, made @ takeWhile (implements obj) calls)))"
proof (induction idxs arbitrary: r cl made0 res)
  case Nil
  let ?c = "RenderAfterBreak (local_space_to_doc_space f (controller_x cl, snd (pos obj)))
              (point_add (local_space_to_doc_space f (controller_x cl, snd (pos obj))) (r, 0))"
  from Nil have "res = made0 @ [?c]"
    by (simp add: render_end_def Let_def dispatch_def)
  then show ?case
    by (intro exI[of _ "[?c]"]) (simp add: render_end_def Let_def dispatch_def)
next
  case (Cons i rest)
  show ?case
  proof (cases "py_get (auto_layout_controllers f) i")
    case (Inl e)
    with Cons.prems show ?thesis by simp
  next
    case (Inr line)
    show ?thesis
    proof (cases "r > controller_length line")
      case False
      let ?c = "RenderAfterBreak
                  (local_space_to_doc_space f (controller_x line, snd (pos obj)))
                  (point_add (local_space_to_doc_space f (controller_x line, snd (pos obj)))
                     (r, 0))"
      from Cons.prems Inr False have "res = made0 @ [?c]"
        by (simp add: render_end_def Let_def dispatch_def)
      with Inr False show ?thesis
        by (intro exI[of _ "[?c]"]) (simp add: render_end_def Let_def dispatch_def)
    next
      case True
      let ?c = "RenderSpanningContinuation
                 (local_space_to_doc_space f (controller_x line, snd (pos obj)))
                 (point_add (local_space_to_doc_space f (controller_x line, snd (pos obj)))
                    (controller_length line, 0))"
      from Cons.prems Inr True
      have rec: "render_remaining (fully_implemented obj) f (r - controller_length line) line
                   rest (made0 @ [?c]) = Inr res"
        by (simp add: Let_def dispatch_def)
      from Cons.IH[OF rec] obtain calls where
        res: "res = (made0 @ [?c]) @ calls" and
        all: "\<forall>made. render_remaining obj f (r - controller_length line) line rest made =
          (if list_all (implements obj) calls then Inr (made @ calls)
           else Inl (NotImplementedError, made @ takeWhile (implements obj) calls))"
        by blast
      show ?thesis
      proof (intro exI[of _ "?c # calls"] conjI allI)
        show "res = made0 @ ?c # calls" using res by simp
      next
        fix made
        show "render_remaining obj f r cl (i # rest) made =
          (if list_all (implements obj) (?c # calls) then Inr (made @ ?c # calls)
           else Inl (NotImplementedError, made @ takeWhile (implements obj) (?c # calls)))"
          using Inr True all by (simp add: Let_def dispatch_def)
      qed
    qed
  qed
qed

text \<open>
  C8. Let \<open>calls\<close> be the render calls that a render of the object goes through when
  no method is missing. For a concrete class that overrides only some of the four
  methods, the render makes the same calls and returns when every phase it reaches is
  overridden; otherwise it raises \<open>NotImplementedError\<close> at the first phase it
  reaches whose method is missing, after the calls before it. Construction
  (\<open>GraphicObject_init\<close>, \<open>InvisibleObject_init\<close>) raises nothing.
\<close>

theorem render_fails_at_missing_phase:
  assumes "render (fully_implemented obj) = Inr calls"
  shows "render obj =
     (if list_all (implements obj) calls then Inr calls
      else Inl (NotImplementedError, takeWhile (implements obj) calls))"
proof (cases "frame obj")
  case None
  with assms show ?thesis
    by (auto simp: render_def frame_def dispatch_def)
next
  case (Some f)
  have fr: "frame (fully_implemented obj) = Some f" using Some by (simp add: frame_def)
  let ?rem = "breakable_width obj + x_pos_rel_to_line_end f (fst (pos obj))"
  show ?thesis
  proof (cases "?rem < 0")
    case True
    with assms Some fr show ?thesis
      by (auto simp: render_def render_flowable_def dispatch_def Let_def)
  next
    case False
    let ?i = "last_break_index_at f (fst (pos obj))"
    show ?thesis
    proof (cases "py_get (auto_layout_controllers f) ?i")
      case (Inl e)
      with assms fr False show ?thesis by (simp add: render_def render_flowable_def Let_def)
    next
      case (Inr cl)
      let ?b = "RenderBeforeBreak (local_space_to_doc_space f (pos obj))
                 (point_add (local_space_to_doc_space f (pos obj))
                   (-1 * x_pos_rel_to_line_end f (fst (pos obj)), 0))"
      let ?idxs = "[?i + 1 .. int (length (auto_layout_controllers f)) - 1]"
      from assms fr False Inr
      have rec: "render_remaining (fully_implemented obj) f ?rem cl ?idxs ([] @ [?b])
                   = Inr calls"
        by (simp add: render_def render_flowable_def Let_def dispatch_def)
      from render_remaining_missing[OF rec] obtain rest where
        calls: "calls = [?b] @ rest" and
        all: "\<forall>made. render_remaining obj f ?rem cl ?idxs made =
          (if list_all (implements obj) rest then Inr (made @ rest)
           else Inl (NotImplementedError, made @ takeWhile (implements obj) rest))"
        by auto
      show ?thesis
        using Some False Inr all calls
        by (simp add: render_def render_flowable_def Let_def dispatch_def)
    qed
  qed
qed

theorem render_fails_at_missing_phase_witness:
  "render (InvisibleObject_init (5, 6) (Object (10, 11) NoParent)) = Inr [RenderComplete (5, 6)]
   \<and> render ((GraphicObject_init (99, 5) 10 (FlowableFrame two_line_frame))
            \<lparr> has_render_before_break := True \<rparr>)
       = Inl (NotImplementedError, [RenderBeforeBreak (119, 25) (120, 25)])"
proof -
  let ?o1 = "InvisibleObject_init (5, 6) (Object (10, 11) NoParent)"
  let ?o2 = "(GraphicObject_init (99, 5) 10 (FlowableFrame two_line_frame))
            \<lparr> has_render_before_break := True \<rparr>"
  have 1: "render (fully_implemented ?o1) = Inr [RenderComplete (5, 6)]"
    by (simp add: render_def frame_def InvisibleObject_init_def GraphicObject_init_def
        dispatch_def fully_implemented_def)
  have 2: "render (fully_implemented ?o2)
      = Inr [RenderBeforeBreak (119, 25) (120, 25), RenderAfterBreak (20, 95) (29, 95)]"
    by (simp add: render_def frame_def GraphicObject_init_def two_line_frame_def
        dispatch_def fully_implemented_def render_flowable_def py_get_def point_add_def
        render_end_def Let_def)
  show ?thesis
    using render_fails_at_missing_phase [OF 1] render_fails_at_missing_phase [OF 2]
    by (simp add: InvisibleObject_init_def GraphicObject_init_def)
qed

subsection \<open>The length of a spanner\<close>

text \<open>
  With the spanner as its own end parent the length is the Euclidean norm of the end
  position, each coordinate converted to the unit class of \<open>pos.x\<close> by the conversion
  rates, in that unit class.
\<close>

lemma spanner_length_self:
  assumes "end_parent s = Self"
  shows "spanner_length s =
     Inr \<lparr> unit_class = unit_class (fst (spanner_pos s)),
           unit_value =
             sqrt ((unit_value (fst (end_pos s)) * conversion_rate (unit_class (fst (end_pos s)))
                      / conversion_rate (unit_class (fst (spanner_pos s))))\<^sup>2
                   + (unit_value (snd (end_pos s)) * conversion_rate (unit_class (snd (end_pos s)))
                      / conversion_rate (unit_class (fst (spanner_pos s))))\<^sup>2) \<rparr>"
  using assms
  by (simp add: spanner_length_def relative_stop_def point_to_unit_def to_unit_def Let_def)

text \<open>
  C6. The length of a spanner is to be the Euclidean distance from its position to its
  end anchor, mapped through the chain of the end parent when that is another object.
  For a spanner at (1, 2) whose end position (-10 mm, 0 mm) is relative to another
  object, an invisible object at (10 mm, 0), \<open>length\<close> raises \<open>AttributeError\<close>:
  it calls \<open>GraphicObject.map_between_items\<close>, which \<open>GraphicObject\<close> does not have.
\<close>

theorem spanner_length_other_end_parent:
  "spanner_length (Spanner_init
       (\<lparr>unit_class = GraphicUnit, unit_value = 1\<rparr>, \<lparr>unit_class = GraphicUnit, unit_value = 2\<rparr>)
       (\<lparr>unit_class = Mm, unit_value = -10\<rparr>, \<lparr>unit_class = Mm, unit_value = 0\<rparr>)
       (Some (InvisibleObject_init (mm 10, 0) NoParent)))
     = Inl AttributeError"
  by (simp add: spanner_length_def relative_stop_def Spanner_init_def)

subsection \<open>Pages\<close>

lemma create_pages_up_to_pages:
  "pages (create_pages_up_to doc i) =
     pages doc @
     map (\<lambda>j. Page_init (page_origin_in_doc_space (doc_paper doc) j) j (doc_paper doc))
       [length (pages doc)..<Suc i]
   \<and> doc_paper (create_pages_up_to doc i) = doc_paper doc"
proof (induction doc i rule: create_pages_up_to.induct)
  case (1 doc i)
  show ?case
  proof (cases "length (pages doc) \<le> i")
    case True
    let ?doc' = "doc \<lparr> pages := pages doc @
             [Page_init (page_origin_in_doc_space (doc_paper doc) (length (pages doc)))
                (length (pages doc)) (doc_paper doc)] \<rparr>"
    have up: "[length (pages doc)..<Suc i]
                = length (pages doc) # [Suc (length (pages doc))..<Suc i]"
      using True by (simp add: upt_conv_Cons del: upt_Suc)
    have step: "create_pages_up_to doc i = create_pages_up_to ?doc' i"
      using True by (subst create_pages_up_to.simps) simp
    from "1.IH"[OF True] show ?thesis
      unfolding step up by (simp del: upt_Suc)
  next
    case False
    then show ?thesis
      by (subst create_pages_up_to.simps, subst (2) create_pages_up_to.simps) simp
  qed
qed

lemma create_pages_up_to_existing:
  "i < length (pages doc) \<Longrightarrow> create_pages_up_to doc i = doc"
  by (subst create_pages_up_to.simps) simp

text \<open>
  C7. \<open>page_at\<close> returns an existing page and leaves the document as it is; for an
  absent index it appends the pages from the lowest absent index up to the requested
  one, in ascending order, each at its origin, and returns the last. Page indices stay
  contiguous from 0. The origin of a page is its index times (paper width + gap):
  with a paper 210 mm wide and the gap of 150 mm, the origin of page 2 is 720 mm
  right of that of page 0.
\<close>

theorem page_at_lazy_in_order:
  "(i < length (pages doc) \<longrightarrow> page_at doc i = (pages doc ! i, doc))
   \<and> (length (pages doc) \<le> i \<longrightarrow>
        pages (snd (page_at doc i)) =
          pages doc @
          map (\<lambda>j. Page_init (page_origin_in_doc_space (doc_paper doc) j) j (doc_paper doc))
            [length (pages doc)..<Suc i]
        \<and> fst (page_at doc i) =
            Page_init (page_origin_in_doc_space (doc_paper doc) i) i (doc_paper doc))
   \<and> (map page_index (pages doc) = [0..<length (pages doc)] \<longrightarrow>
        map page_index (pages (snd (page_at doc i)))
          = [0..<length (pages (snd (page_at doc i)))])
   \<and> page_origin_in_doc_space pap j = (real j * (paper_width pap + PAGE_DISPLAY_GAP), 0)
   \<and> (paper_width pap = mm 210 \<longrightarrow>
        fst (page_origin_in_doc_space pap 2) - fst (page_origin_in_doc_space pap 0) = mm 720)"
proof (intro conjI impI)
  assume "i < length (pages doc)"
  then show "page_at doc i = (pages doc ! i, doc)"
    by (simp add: page_at_def create_pages_up_to_existing)
next
  assume a: "length (pages doc) \<le> i"
  show "pages (snd (page_at doc i)) =
          pages doc @
          map (\<lambda>j. Page_init (page_origin_in_doc_space (doc_paper doc) j) j (doc_paper doc))
            [length (pages doc)..<Suc i]"
    by (simp add: page_at_def create_pages_up_to_pages Let_def)
  from a have nth: "[length (pages doc)..<Suc i] ! (i - length (pages doc)) = i"
    by (simp add: nth_upt del: upt_Suc)
  from a show "fst (page_at doc i) =
            Page_init (page_origin_in_doc_space (doc_paper doc) i) i (doc_paper doc)"
    by (simp add: page_at_def create_pages_up_to_pages Let_def nth_append nth del: upt_Suc)
next
  assume c: "map page_index (pages doc) = [0..<length (pages doc)]"
  have m: "map (page_index \<circ>
                (\<lambda>j. Page_init (page_origin_in_doc_space (doc_paper doc) j) j (doc_paper doc)))
             xs = xs" for xs
    by (induction xs) (simp_all add: Page_init_def)
  show "map page_index (pages (snd (page_at doc i)))
          = [0..<length (pages (snd (page_at doc i)))]"
  proof (cases "length (pages doc) \<le> i")
    case True
    then have "[0..<length (pages doc)] @ [length (pages doc)..<Suc i] = [0..<Suc i]"
      by (metis le_SucI upt_add_eq_append zero_le le_add_diff_inverse)
    with True c show ?thesis
      by (simp add: page_at_def create_pages_up_to_pages Let_def m del: upt_Suc)
  next
    case False
    with c show ?thesis
      by (simp add: page_at_def create_pages_up_to_existing)
  qed
next
  show "page_origin_in_doc_space pap j = (real j * (paper_width pap + PAGE_DISPLAY_GAP), 0)"
    by (simp add: page_origin_in_doc_space_def)
next
  assume "paper_width pap = mm 210"
  then show "fst (page_origin_in_doc_space pap 2) - fst (page_origin_in_doc_space pap 0)
               = mm 720"
    by (simp add: page_origin_in_doc_space_def PAGE_DISPLAY_GAP_def mm_def)
qed

theorem page_at_lazy_in_order_witness:
  "map page_index (pages (snd (page_at (new_document (test_paper \<lparr> paper_width := mm 210 \<rparr>)) 2)))
     = [0, 1, 2]
   \<and> page_at \<lparr> doc_paper = test_paper, pages = [Page_init (0, 0) 0 test_paper] \<rparr> 0
     = (Page_init (0, 0) 0 test_paper,
        \<lparr> doc_paper = test_paper, pages = [Page_init (0, 0) 0 test_paper] \<rparr>)
   \<and> fst (page_origin_in_doc_space (test_paper \<lparr> paper_width := mm 210 \<rparr>) 2)
       - fst (page_origin_in_doc_space (test_paper \<lparr> paper_width := mm 210 \<rparr>) 0) = mm 720"
proof -
  let ?pap = "test_paper \<lparr> paper_width := mm 210 \<rparr>"
  let ?doc = "\<lparr> doc_paper = test_paper, pages = [Page_init (0, 0) 0 test_paper] \<rparr>"
  have fresh: "length (pages (new_document ?pap)) \<le> 2"
    by (simp add: new_document_def)
  have "pages (snd (page_at (new_document ?pap) 2)) =
          pages (new_document ?pap) @
          map (\<lambda>j. Page_init (page_origin_in_doc_space (doc_paper (new_document ?pap)) j) j
                 (doc_paper (new_document ?pap)))
            [length (pages (new_document ?pap))..<Suc 2]"
    using page_at_lazy_in_order [of 2 "new_document ?pap" ?pap 0] fresh by blast
  then have 1: "map page_index (pages (snd (page_at (new_document ?pap) 2))) = [0, 1, 2]"
    by (simp add: new_document_def Page_init_def upt_rec)
  have 2: "page_at ?doc 0 = (Page_init (0, 0) 0 test_paper, ?doc)"
    using page_at_lazy_in_order [of 0 ?doc test_paper 0] by simp
  have 3: "fst (page_origin_in_doc_space ?pap 2) - fst (page_origin_in_doc_space ?pap 0)
             = mm 720"
    using page_at_lazy_in_order [of 2 "new_document ?pap" ?pap 1] by simp
  from 1 2 3 show ?thesis by blast
qed

subsection \<open>Break points of a flowable frame\<close>

lemma ceiling_step:
  fixes l x w :: real
  assumes "0 < w" and "x < l"
  shows "nat \<lceil>(l - (x + w)) / w\<rceil> < nat \<lceil>(l - x) / w\<rceil>"
proof -
  have e: "(l - (x + w)) / w = (l - x) / w - 1"
    using assms by (simp add: field_simps)
  have "0 < (l - x) / w" using assms by simp
  then have "0 < \<lceil>(l - x) / w\<rceil>" by simp
  then show ?thesis unfolding e by simp
qed

lemma segments_not_Nil: "segments start l ts \<noteq> []"
  by (cases ts) simp_all

text \<open>
  The loop from a cumulative x onward, for a positive live width: it returns; the
  triggers start at that x, increase strictly and stay below the length of the frame;
  and from any point \<open>prev\<close> at or before that x, the segments up to the end of the
  frame are not negative, the first is at most the distance from \<open>prev\<close> to that x,
  the others are at most one live width long, and they add up to what is left of the
  frame.
\<close>

lemma generate_from_tiles:
  assumes w: "0 < live_width (frame_paper g)"
    and hp: "frame_height g + y_padding g \<noteq> 0"
  shows "\<exists>cs. generate_from g x k = Some (Inr cs)
     \<and> (\<forall>prev. prev \<le> x \<and> prev \<le> frame_width g \<longrightarrow>
           (\<forall>s \<in> set (segments prev (frame_width g) (map controller_x cs)). 0 \<le> s)
           \<and> hd (segments prev (frame_width g) (map controller_x cs)) \<le> x - prev
           \<and> (\<forall>s \<in> set (tl (segments prev (frame_width g) (map controller_x cs))).
                 s \<le> live_width (frame_paper g))
           \<and> sum_list (segments prev (frame_width g) (map controller_x cs))
               = frame_width g - prev)
     \<and> sorted_wrt (<) (map controller_x cs)
     \<and> (\<forall>c \<in> set cs. x \<le> controller_x c \<and> controller_x c < frame_width g
           \<and> controller_length c = live_width (frame_paper g))
     \<and> (frame_width g \<le> x \<longrightarrow> cs = [])"
proof (induction n \<equiv> "nat \<lceil>(frame_width g - x) / live_width (frame_paper g)\<rceil>"
    arbitrary: x k rule: less_induct)
  case less
  let ?W = "live_width (frame_paper g)"
  let ?L = "frame_width g"
  show ?case
  proof (cases "?L \<le> x")
    case True
    then have "generate_from g x k = Some (Inr [])"
      by (subst generate_from.simps) simp
    with True show ?thesis by auto
  next
    case False
    then have xl: "x < ?L" by simp
    from hp obtain b where b: "lines_per_page g = Inr b"
      by (simp add: lines_per_page_def)
    define k' where "k' = (if b \<le> k then 1 else Suc k)"
    define c where "c = (if b \<le> k then new_page_at g x else new_line_at g x)"
    have cx: "controller_x c = x" and cl: "controller_length c = ?W"
      by (simp_all add: c_def new_page_at_def new_line_at_def)
    from less[OF ceiling_step[OF w xl], of k'] obtain cs where
      gen: "generate_from g (x + ?W) k' = Some (Inr cs)" and
      seg: "\<And>prev. prev \<le> x + ?W \<Longrightarrow> prev \<le> ?L \<Longrightarrow>
           (\<forall>s \<in> set (segments prev ?L (map controller_x cs)). 0 \<le> s)
           \<and> hd (segments prev ?L (map controller_x cs)) \<le> x + ?W - prev
           \<and> (\<forall>s \<in> set (tl (segments prev ?L (map controller_x cs))). s \<le> ?W)
           \<and> sum_list (segments prev ?L (map controller_x cs)) = ?L - prev" and
      srt: "sorted_wrt (<) (map controller_x cs)" and
      bnd: "\<And>c. c \<in> set cs \<Longrightarrow> x + ?W \<le> controller_x c \<and> controller_x c < ?L
           \<and> controller_length c = ?W"
      by blast
    have res: "generate_from g x k = Some (Inr (c # cs))"
    proof (cases "b \<le> k")
      case True
      with gen have "generate_from g (x + ?W) 1 = Some (Inr cs)" by (simp add: k'_def)
      with True False b show ?thesis
        by (subst generate_from.simps) (simp add: c_def cons_result_def)
    next
      case nb: False
      with gen have "generate_from g (x + ?W) (Suc k) = Some (Inr cs)" by (simp add: k'_def)
      with nb False b show ?thesis
        by (subst generate_from.simps) (simp add: c_def cons_result_def)
    qed
    let ?rest = "segments x ?L (map controller_x cs)"
    from seg[of x] w xl have
      nonneg: "\<forall>s \<in> set ?rest. 0 \<le> s" and
      hd_le: "hd ?rest \<le> ?W" and
      tl_le: "\<forall>s \<in> set (tl ?rest). s \<le> ?W" and
      total: "sum_list ?rest = ?L - x"
      by simp_all
    have "set ?rest = insert (hd ?rest) (set (tl ?rest))"
      using segments_not_Nil[of x ?L "map controller_x cs"]
      by (cases ?rest) simp_all
    with hd_le tl_le have all_le: "\<forall>s \<in> set ?rest. s \<le> ?W" by auto
    have "\<forall>prev. prev \<le> x \<and> prev \<le> ?L \<longrightarrow>
           (\<forall>s \<in> set (segments prev ?L (map controller_x (c # cs))). 0 \<le> s)
           \<and> hd (segments prev ?L (map controller_x (c # cs))) \<le> x - prev
           \<and> (\<forall>s \<in> set (tl (segments prev ?L (map controller_x (c # cs)))). s \<le> ?W)
           \<and> sum_list (segments prev ?L (map controller_x (c # cs))) = ?L - prev"
      using nonneg all_le total by (simp add: cx)
    moreover have "sorted_wrt (<) (map controller_x (c # cs))"
      using srt bnd w by (fastforce simp: cx)
    moreover have "\<forall>c' \<in> set (c # cs). x \<le> controller_x c' \<and> controller_x c' < ?L
           \<and> controller_length c' = ?W"
      using bnd xl w cx cl by fastforce
    ultimately show ?thesis using res False by blast
  qed
qed

text \<open>
  C1, as stated for every frame, fails on the break points as section 4.1 has them
  when the frame does not start within its first line or when line height and padding
  add up to zero: a frame of length zero that starts at offset 200 on a live width of
  160 gets a new line at x = -40, and for a frame 560 long with line height and
  padding 0 the count of lines per page divides by zero.
\<close>

theorem break_tiling_outside_first_line:
  "generate_auto_layout_controllers
     \<lparr> frame_pos = (200, 0), frame_width = 0, frame_height = 50, y_padding = 20,
       frame_paper = test_paper \<rparr>
   = Some (Inr [\<lparr> controller_kind = NewLine, controller_x = -40, controller_length = 160,
                  margin_above_next = 20 \<rparr>])
   \<and> generate_auto_layout_controllers
     \<lparr> frame_pos = (0, 0), frame_width = 560, frame_height = 0, y_padding = 0,
       frame_paper = test_paper \<rparr>
   = Some (Inl ZeroDivisionError)"
  by (simp add: generate_auto_layout_controllers_def generate_from.simps test_paper_def
      lines_per_page_def cons_result_def new_line_at_def)

text \<open>
  C1, amended. For a frame of length L >= 0 on a paper of live width W > 0 that starts within
  its first line (a starting offset of at most W): a frame of length zero gets no
  controller, and nothing is raised; and, the line height and padding not adding up to
  zero, the generation returns a list of controllers whose triggers increase strictly;
  the segments into which they slice [0, L) are not negative, the first is at most
  what the starting offset leaves of the first line (W less the offset), every other
  one is at most W, and they add up to exactly L; and no trigger is at or after L, so
  that content ending exactly at a boundary gets no trailing controller.
\<close>

theorem break_tiling:
  assumes l: "0 \<le> frame_width g"
    and w: "0 < live_width (frame_paper g)"
    and x0: "fst (frame_pos g) \<le> live_width (frame_paper g)"
  shows "(frame_width g = 0 \<longrightarrow> generate_auto_layout_controllers g = Some (Inr []))
   \<and> (frame_height g + y_padding g \<noteq> 0 \<longrightarrow>
       (\<exists>cs. generate_auto_layout_controllers g = Some (Inr cs)
         \<and> sorted_wrt (<) (map controller_x cs)
         \<and> (\<forall>s \<in> set (segments 0 (frame_width g) (map controller_x cs)). 0 \<le> s)
         \<and> hd (segments 0 (frame_width g) (map controller_x cs))
             \<le> live_width (frame_paper g) - fst (frame_pos g)
         \<and> (\<forall>s \<in> set (tl (segments 0 (frame_width g) (map controller_x cs))).
               s \<le> live_width (frame_paper g))
         \<and> sum_list (segments 0 (frame_width g) (map controller_x cs)) = frame_width g
         \<and> (\<forall>c \<in> set cs. controller_x c < frame_width g)))"
proof (intro conjI impI)
  assume "frame_width g = 0"
  with x0 show "generate_auto_layout_controllers g = Some (Inr [])"
    unfolding generate_auto_layout_controllers_def
    by (subst generate_from.simps) simp
next
  assume hp: "frame_height g + y_padding g \<noteq> 0"
  let ?W = "live_width (frame_paper g)"
  let ?x = "?W - fst (frame_pos g)"
  from generate_from_tiles[OF w hp, of ?x 1]
  obtain cs where
    gen: "generate_from g ?x 1 = Some (Inr cs)" and
    seg: "\<And>prev. prev \<le> ?x \<Longrightarrow> prev \<le> frame_width g \<Longrightarrow>
           (\<forall>s \<in> set (segments prev (frame_width g) (map controller_x cs)). 0 \<le> s)
           \<and> hd (segments prev (frame_width g) (map controller_x cs)) \<le> ?x - prev
           \<and> (\<forall>s \<in> set (tl (segments prev (frame_width g) (map controller_x cs))). s \<le> ?W)
           \<and> sum_list (segments prev (frame_width g) (map controller_x cs))
               = frame_width g - prev" and
    srt: "sorted_wrt (<) (map controller_x cs)" and
    bnd: "\<And>c. c \<in> set cs \<Longrightarrow> controller_x c < frame_width g"
    by blast
  from seg[of 0] x0 l have
    "(\<forall>s \<in> set (segments 0 (frame_width g) (map controller_x cs)). 0 \<le> s)
     \<and> hd (segments 0 (frame_width g) (map controller_x cs)) \<le> ?x
     \<and> (\<forall>s \<in> set (tl (segments 0 (frame_width g) (map controller_x cs))). s \<le> ?W)
     \<and> sum_list (segments 0 (frame_width g) (map controller_x cs)) = frame_width g"
    by simp
  with gen srt bnd
  show "\<exists>cs. generate_auto_layout_controllers g = Some (Inr cs)
         \<and> sorted_wrt (<) (map controller_x cs)
         \<and> (\<forall>s \<in> set (segments 0 (frame_width g) (map controller_x cs)). 0 \<le> s)
         \<and> hd (segments 0 (frame_width g) (map controller_x cs))
             \<le> live_width (frame_paper g) - fst (frame_pos g)
         \<and> (\<forall>s \<in> set (tl (segments 0 (frame_width g) (map controller_x cs))).
               s \<le> live_width (frame_paper g))
         \<and> sum_list (segments 0 (frame_width g) (map controller_x cs)) = frame_width g
         \<and> (\<forall>c \<in> set cs. controller_x c < frame_width g)"
    unfolding generate_auto_layout_controllers_def by blast
qed


theorem break_tiling_witness:
  "generate_auto_layout_controllers
     \<lparr> frame_pos = (0, 0), frame_width = mm 160 * 3.5, frame_height = 50, y_padding = 20,
       frame_paper = setup_paper \<rparr>
   = Some (Inr [\<lparr> controller_kind = NewLine, controller_x = mm 160, controller_length = mm 160,
                  margin_above_next = 20 \<rparr>,
                \<lparr> controller_kind = NewLine, controller_x = mm 160 * 2,
                  controller_length = mm 160, margin_above_next = 20 \<rparr>,
                \<lparr> controller_kind = NewLine, controller_x = mm 160 * 3,
                  controller_length = mm 160, margin_above_next = 20 \<rparr>])
   \<and> segments 0 (mm 160 * 3.5) [mm 160, mm 160 * 2, mm 160 * 3]
       = [mm 160, mm 160, mm 160, mm 160 * 0.5]
   \<and> generate_auto_layout_controllers
     \<lparr> frame_pos = (10, 11), frame_width = 200, frame_height = 50, y_padding = 20,
       frame_paper = setup_paper \<rparr> = Some (Inr [])
   \<and> generate_auto_layout_controllers
     \<lparr> frame_pos = (10, 11), frame_width = 0, frame_height = 0, y_padding = 0,
       frame_paper = setup_paper \<rparr> = Some (Inr [])"
  using break_tiling
      [of "\<lparr> frame_pos = (0, 0), frame_width = mm 160 * 3.5, frame_height = 50,
             y_padding = 20, frame_paper = setup_paper \<rparr>"]
    break_tiling
      [of "\<lparr> frame_pos = (10, 11), frame_width = 0, frame_height = 0, y_padding = 0,
             frame_paper = setup_paper \<rparr>"]
  by (simp add: generate_auto_layout_controllers_def generate_from.simps setup_paper_def
      lines_per_page_def cons_result_def new_line_at_def mm_def)

end
